theory Spec2Isabelle
  imports Complex_Main
begin

section \<open>JavaScript values, errors and the observable world\<close>

text \<open>
  The extension handles values that come out of \<^verbatim>\<open>JSON.parse\<close> and builds object
  literals from them. A value is one of the JavaScript kinds below; an object is kept as
  the list of its own properties in insertion order. Numbers are rationals: every finite
  JSON number is one, and the code only ever tests them for truthiness and for
  \<^verbatim>\<open>=== 0\<close>.
\<close>

datatype jsval =
    Undefined
  | Null
  | Bool bool
  | Num rat
  | Str string
  | Arr "jsval list"
  | Obj "(string \<times> jsval) list"

text \<open>A thrown value. Each one carries the text that \<^verbatim>\<open>error.message\<close> reads.\<close>

datatype error =
    Error string
  | TypeError string
  | SyntaxError string

fun message_of :: "error \<Rightarrow> string" where
  "message_of (Error m) = m"
| "message_of (TypeError m) = m"
| "message_of (SyntaxError m) = m"

text \<open>
  Truthiness, the operator \<^verbatim>\<open>||\<close>, and reading a property. Reading a property of
  \<^verbatim>\<open>null\<close> or \<^verbatim>\<open>undefined\<close> throws a TypeError; reading one of any other value
  gives the own property, or \<^verbatim>\<open>undefined\<close> (none of the names the code reads is
  inherited from a prototype). An object has at most one entry per name, so taking the
  first one is taking the only one.
\<close>

fun truthy :: "jsval \<Rightarrow> bool" where
  "truthy Undefined = False"
| "truthy Null = False"
| "truthy (Bool b) = b"
| "truthy (Num n) = (n \<noteq> 0)"
| "truthy (Str s) = (s \<noteq> [])"
| "truthy (Arr xs) = True"
| "truthy (Obj kvs) = True"

definition js_or :: "jsval \<Rightarrow> jsval \<Rightarrow> jsval" where
  "js_or a b = (if truthy a then a else b)"

fun nullish :: "jsval \<Rightarrow> bool" where
  "nullish Undefined = True"
| "nullish Null = True"
| "nullish v = False"

fun js_prop :: "jsval \<Rightarrow> string \<Rightarrow> jsval" where
  "js_prop (Obj kvs) k = (case map_of kvs k of Some v \<Rightarrow> v | None \<Rightarrow> Undefined)"
| "js_prop v k = Undefined"

definition cannot_read :: "string \<Rightarrow> string \<Rightarrow> error" where
  "cannot_read what k =
     TypeError (''Cannot read properties of '' @ what @ '' (reading '' @ [CHR 0x27] @ k
                @ [CHR 0x27] @ '')'')"

fun get :: "jsval \<Rightarrow> string \<Rightarrow> error + jsval" where
  "get Undefined k = Inl (cannot_read ''undefined'' k)"
| "get Null k = Inl (cannot_read ''null'' k)"
| "get v k = Inr (js_prop v k)"

text \<open>
  What the extension does to the outside, in the order it does it: child processes
  started, messages posted to the webview, notifications shown, console lines written.
  A console line built from a template literal keeps the fixed text and the numbers
  interpolated into it.
\<close>

datatype event =
    Exec string
  | PostMessage jsval
  | ShowInformationMessage string
  | ShowErrorMessage string
  | ShowWarningMessage string
  | ConsoleLog string "int list"
  | ConsoleWarn string
  | ConsoleError string error

text \<open>
  The module variables of \<^verbatim>\<open>orgCache.js\<close> (\<^verbatim>\<open>orgListCache\<close>, \<^verbatim>\<open>cacheTimestamp\<close>,
  \<^verbatim>\<open>cacheVersion\<close>; the variable \<^verbatim>\<open>cacheLock\<close> is declared there and never read or
  written), the reading of \<^verbatim>\<open>Date.now()\<close> in milliseconds, and the events so far.
  \<open>None\<close> is JavaScript's \<^verbatim>\<open>null\<close>.
\<close>

record world =
  orgListCache :: "jsval list option"
  cacheTimestamp :: "int option"
  cacheVersion :: nat
  now :: int
  trace :: "event list"

definition initial_world :: "int \<Rightarrow> world" where
  "initial_world t =
     \<lparr>orgListCache = None, cacheTimestamp = None, cacheVersion = 0, now = t, trace = []\<rparr>"

definition emit :: "event \<Rightarrow> world \<Rightarrow> world" where
  "emit e w = w\<lparr>trace := trace w @ [e]\<rparr>"

section \<open>config.js\<close>

text \<open>
  The setting \<^verbatim>\<open>sfRangerToolkit.orgCacheDurationSeconds\<close> as \<^verbatim>\<open>getConfig\<close> sees it:
  \<open>None\<close> when the store returns \<^verbatim>\<open>undefined\<close> or throws, and the default is used.
\<close>

record config =
  orgCacheDurationSeconds :: "int option"

definition DEFAULTS_orgCacheDurationSeconds :: int where
  "DEFAULTS_orgCacheDurationSeconds = 300"

definition getConfig :: "'a option \<Rightarrow> 'a \<Rightarrow> 'a" where
  "getConfig val defaultValue = (case val of Some v \<Rightarrow> v | None \<Rightarrow> defaultValue)"

definition getOrgCacheDuration :: "config \<Rightarrow> int" where
  "getOrgCacheDuration cfg =
     (let seconds = getConfig (orgCacheDurationSeconds cfg) DEFAULTS_orgCacheDurationSeconds
      in seconds * 1000)"

section \<open>orgCache.js\<close>

definition getCacheDuration :: "config \<Rightarrow> int" where
  "getCacheDuration cfg = getOrgCacheDuration cfg"

definition setOrgListCache :: "jsval list \<Rightarrow> world \<Rightarrow> nat \<times> world" where
  "setOrgListCache orgs w =
     (let timestamp = now w;
          version = cacheVersion w + 1
      in (version,
          emit (ConsoleLog ''[OrgCache] Cached orgs''
                  [int (length orgs), timestamp, int version])
            (w\<lparr>cacheVersion := version,
               orgListCache := Some orgs,
               cacheTimestamp := Some timestamp\<rparr>)))"

text \<open>
  The guard \<^verbatim>\<open>!orgListCache || !cacheTimestamp\<close>: an array is truthy even when empty;
  a number is falsy when it is \<open>0\<close>.
\<close>

definition no_cache :: "world \<Rightarrow> bool" where
  "no_cache w =
     (case orgListCache w of
        None \<Rightarrow> True
      | Some orgs \<Rightarrow> (case cacheTimestamp w of None \<Rightarrow> True | Some ts \<Rightarrow> ts = 0))"

definition getOrgListCache :: "config \<Rightarrow> world \<Rightarrow> jsval list option \<times> world" where
  "getOrgListCache cfg w =
     (if no_cache w then (None, emit (ConsoleLog ''[OrgCache] No cache available'' []) w)
      else
        let cacheAge = now w - the (cacheTimestamp w);
            cacheDuration = getCacheDuration cfg
        in if cacheAge > cacheDuration
           then (None,
                 (emit (ConsoleLog ''[OrgCache] Cache expired'' [cacheAge, cacheDuration]) w)
                   \<lparr>orgListCache := None, cacheTimestamp := None\<rparr>)
           else (orgListCache w,
                 emit (ConsoleLog ''[OrgCache] Returning cached data'' [cacheAge]) w))"

definition clearOrgListCache :: "world \<Rightarrow> nat \<times> world" where
  "clearOrgListCache w =
     (let version = cacheVersion w + 1
      in (version,
          emit (ConsoleLog ''[OrgCache] Cache cleared'' [int version])
            (w\<lparr>cacheVersion := version,
               orgListCache := None,
               cacheTimestamp := None\<rparr>)))"

text \<open>\<^verbatim>\<open>Math.round\<close> of an integer divided by 1000: halves go up.\<close>

definition round_div_1000 :: "int \<Rightarrow> int" where
  "round_div_1000 a = (a + 500) div 1000"

definition getCacheStats :: "config \<Rightarrow> world \<Rightarrow> jsval \<times> world" where
  "getCacheStats cfg w =
     (if no_cache w
      then (Obj [(''cached'', Bool False),
                 (''size'', Num 0),
                 (''age'', Num 0),
                 (''valid'', Bool False)], w)
      else
        let age = now w - the (cacheTimestamp w);
            cacheDuration = getCacheDuration cfg;
            valid = (age \<le> cacheDuration)
        in (Obj [(''cached'', Bool True),
                 (''size'', Num (of_nat (length (the (orgListCache w))))),
                 (''age'', Num (of_int age)),
                 (''ageSeconds'', Num (of_int (round_div_1000 age))),
                 (''valid'', Bool valid),
                 (''expiresIn'', Num (of_int (if valid then cacheDuration - age else 0))),
                 (''cacheDuration'', Num (of_int cacheDuration))], w))"

definition getCacheVersion :: "world \<Rightarrow> nat" where
  "getCacheVersion w = cacheVersion w"

subsection \<open>Sequences of cache calls\<close>

text \<open>
  A caller of the module: each call is made at some clock reading and under some
  configuration (the duration is read again on every call).
\<close>

datatype cache_call =
    CallSet "jsval list"
  | CallGet
  | CallClear
  | CallStats
  | CallVersion

fun is_write :: "cache_call \<Rightarrow> bool" where
  "is_write (CallSet orgs) = True"
| "is_write CallClear = True"
| "is_write c = False"

fun cache_step :: "config \<Rightarrow> cache_call \<Rightarrow> world \<Rightarrow> world" where
  "cache_step cfg (CallSet orgs) w = snd (setOrgListCache orgs w)"
| "cache_step cfg CallGet w = snd (getOrgListCache cfg w)"
| "cache_step cfg CallClear w = snd (clearOrgListCache w)"
| "cache_step cfg CallStats w = snd (getCacheStats cfg w)"
| "cache_step cfg CallVersion w = w"

fun cache_run :: "(int \<times> config \<times> cache_call) list \<Rightarrow> world \<Rightarrow> world" where
  "cache_run [] w = w"
| "cache_run ((t, cfg, c) # cs) w = cache_run cs (cache_step cfg c (w\<lparr>now := t\<rparr>))"

definition slot_consistent :: "world \<Rightarrow> bool" where
  "slot_consistent w =
     (case (orgListCache w, cacheTimestamp w) of
        (Some orgs, Some ts) \<Rightarrow> True
      | (None, None) \<Rightarrow> True
      | _ \<Rightarrow> False)"

definition keys_of :: "jsval \<Rightarrow> string list" where
  "keys_of v = (case v of Obj kvs \<Rightarrow> map fst kvs | _ \<Rightarrow> [])"

section \<open>sfdxCommandExecutor.js\<close>

text \<open>
  What lies outside the repository is a parameter: the child process (what the callback
  of \<^verbatim>\<open>exec\<close> receives for a command line, and how long the process ran),
  \<^verbatim>\<open>JSON.parse\<close>, the conversion \<^verbatim>\<open>String(v)\<close> of a value that is not a string, the
  configuration store, and the user's answer to the modal warning (the chosen item, or
  \<open>None\<close> for \<^verbatim>\<open>undefined\<close> when the dialog is dismissed; the prompt may also reject).
\<close>

record proc =
  failure :: "error option"
  stdout :: string
  stderr :: string
  elapsed :: int

record env =
  settings :: config
  exec :: "string \<Rightarrow> proc"
  JSON_parse :: "string \<Rightarrow> error + jsval"
  String_of :: "jsval \<Rightarrow> string"
  showWarningMessage :: "string \<Rightarrow> int \<times> (error + string option)"

text \<open>The callback handed to \<^verbatim>\<open>exec\<close>: how the promise settles (\<open>Inl\<close> is a rejection).\<close>

definition exec_callback :: "(string \<Rightarrow> error + jsval) \<Rightarrow> proc \<Rightarrow> error + jsval" where
  "exec_callback parse p =
     (case failure p of
        Some err \<Rightarrow>
          (case parse (if stdout p \<noteq> [] then stdout p else stderr p) of
             Inr errorData \<Rightarrow> Inr errorData
           | Inl parseError \<Rightarrow> Inl err)
      | None \<Rightarrow>
          (case parse (stdout p) of
             Inr data \<Rightarrow> Inr data
           | Inl parseError \<Rightarrow>
               Inl (Error (''Failed to parse SFDX output: '' @ message_of parseError))))"

definition settle :: "env \<Rightarrow> string \<Rightarrow> error + jsval" where
  "settle env command = exec_callback (JSON_parse env) (exec env command)"

definition executeSfdxCommand :: "env \<Rightarrow> string \<Rightarrow> world \<Rightarrow> (error + jsval) \<times> world" where
  "executeSfdxCommand env command w =
     (settle env command,
      (emit (Exec command) w)\<lparr>now := now w + elapsed (exec env command)\<rparr>)"

subsection \<open>listAllOrgs\<close>

text \<open>
  The spread \<^verbatim>\<open>...x\<close> of a truthy value: the elements of an array, the code points of
  a string, a TypeError for anything that is not iterable. A string is kept here as its
  UTF-8 bytes, so a code point is a lead byte with the continuation bytes (\<open>0x80\<close> to
  \<open>0xBF\<close>) that follow it.
\<close>

definition is_continuation :: "char \<Rightarrow> bool" where
  "is_continuation c = (128 \<le> (of_char c :: nat) \<and> (of_char c :: nat) < 192)"

fun code_points :: "string \<Rightarrow> string list" where
  "code_points [] = []"
| "code_points (c # cs) =
     (case code_points cs of
        [] \<Rightarrow> [[c]]
      | p # ps \<Rightarrow>
          (case p of
             [] \<Rightarrow> [c] # ps
           | d # ds \<Rightarrow> if is_continuation d then (c # p) # ps else [c] # p # ps))"

definition not_iterable :: error where
  "not_iterable = TypeError ''Spread syntax requires ...iterable[Symbol.iterator] to be a function''"

fun spread :: "jsval \<Rightarrow> error + jsval list" where
  "spread (Arr xs) = Inr xs"
| "spread (Str s) = Inr (map Str (code_points s))"
| "spread v = Inl not_iterable"

definition push_all :: "jsval \<Rightarrow> jsval list \<Rightarrow> error + jsval list" where
  "push_all x allOrgs =
     (if truthy x
      then (case spread x of Inl e \<Rightarrow> Inl e | Inr xs \<Rightarrow> Inr (allOrgs @ xs))
      else Inr allOrgs)"

text \<open>The arrow function given to \<^verbatim>\<open>allOrgs.map\<close>; its first read throws on a nullish element.\<close>

definition normalize_org :: "jsval \<Rightarrow> error + jsval" where
  "normalize_org org =
     (case get org ''username'' of
        Inl e \<Rightarrow> Inl e
      | Inr username \<Rightarrow>
          Inr (Obj [(''username'', username),
                    (''alias'', js_or (js_prop org ''alias'') (js_prop org ''username'')),
                    (''orgId'', js_prop org ''orgId''),
                    (''instanceUrl'', js_prop org ''instanceUrl''),
                    (''connectedStatus'', js_or (js_prop org ''connectedStatus'') (Str ''Unknown'')),
                    (''isDefaultUsername'', js_or (js_prop org ''isDefaultUsername'') (Bool False)),
                    (''isDefaultDevHubUsername'',
                       js_or (js_prop org ''isDefaultDevHubUsername'') (Bool False)),
                    (''isScratchOrg'', js_or (js_prop org ''isScratchOrg'') (Bool False)),
                    (''expirationDate'', js_or (js_prop org ''expirationDate'') Null)]))"

fun map_throwing :: "('a \<Rightarrow> error + 'b) \<Rightarrow> 'a list \<Rightarrow> error + 'b list" where
  "map_throwing f [] = Inr []"
| "map_throwing f (x # xs) =
     (case f x of
        Inl e \<Rightarrow> Inl e
      | Inr y \<Rightarrow> (case map_throwing f xs of Inl e \<Rightarrow> Inl e | Inr ys \<Rightarrow> Inr (y # ys)))"

text \<open>The body of the \<^verbatim>\<open>try\<close> block, from the settled promise on.\<close>

definition listAllOrgs_try :: "error + jsval \<Rightarrow> error + jsval list" where
  "listAllOrgs_try settled =
     (case settled of
        Inl e \<Rightarrow> Inl e
      | Inr result \<Rightarrow>
          (case get result ''status'' of
             Inl e \<Rightarrow> Inl e
           | Inr status \<Rightarrow>
               if status = Num 0 \<and> truthy (js_prop result ''result'')
               then (case push_all (js_prop (js_prop result ''result'') ''nonScratchOrgs'') [] of
                       Inl e \<Rightarrow> Inl e
                     | Inr allOrgs1 \<Rightarrow>
                         (case push_all (js_prop (js_prop result ''result'') ''scratchOrgs'') allOrgs1 of
                            Inl e \<Rightarrow> Inl e
                          | Inr allOrgs \<Rightarrow> map_throwing normalize_org allOrgs))
               else Inr []))"

definition listAllOrgs :: "env \<Rightarrow> world \<Rightarrow> jsval list \<times> world" where
  "listAllOrgs env w =
     (let (settled, w1) = executeSfdxCommand env ''sf org list --json'' w
      in case listAllOrgs_try settled of
           Inr orgs \<Rightarrow> (orgs, w1)
         | Inl e \<Rightarrow> ([], emit (ConsoleError ''Error listing orgs:'' e) w1))"

subsection \<open>Operations that answer with success and message\<close>

record outcome =
  success :: bool
  message :: string

definition js_String :: "env \<Rightarrow> jsval \<Rightarrow> string" where
  "js_String env v = (case v of Str s \<Rightarrow> s | _ \<Rightarrow> String_of env v)"

text \<open>
  \<^verbatim>\<open>if (result.status === 0) return ok; throw new Error(result.message || fallback)\<close>,
  and the \<^verbatim>\<open>catch\<close> that turns whatever was thrown into a failed outcome.
\<close>

definition status_0_or_throw :: "env \<Rightarrow> jsval \<Rightarrow> 'a \<Rightarrow> string \<Rightarrow> error + 'a" where
  "status_0_or_throw env result ok fallback =
     (case get result ''status'' of
        Inl e \<Rightarrow> Inl e
      | Inr status \<Rightarrow>
          if status = Num 0 then Inr ok
          else Inl (Error (js_String env (js_or (js_prop result ''message'') (Str fallback)))))"

definition caught :: "error + outcome \<Rightarrow> outcome" where
  "caught r = (case r of Inr ok \<Rightarrow> ok | Inl e \<Rightarrow> \<lparr>success = False, message = message_of e\<rparr>)"

text \<open>The parameter \<open>instanceUrl\<close> is a string or \<^verbatim>\<open>null\<close>; so is \<open>alias\<close>.\<close>

definition reauthenticateOrg_command :: "string \<Rightarrow> string option \<Rightarrow> string" where
  "reauthenticateOrg_command username instanceUrl =
     (case instanceUrl of
        Some url \<Rightarrow>
          if url \<noteq> [] \<and> url \<noteq> ''undefined''
          then ''sf org login web --instance-url '' @ url @ '' --alias '' @ username @ '' --json''
          else ''sf org login web --alias '' @ username @ '' --json''
      | None \<Rightarrow> ''sf org login web --alias '' @ username @ '' --json'')"

definition reauthenticateOrg :: "env \<Rightarrow> string \<Rightarrow> string option \<Rightarrow> world \<Rightarrow> outcome \<times> world" where
  "reauthenticateOrg env username instanceUrl w =
     (let (settled, w1) = executeSfdxCommand env (reauthenticateOrg_command username instanceUrl) w
      in (caught (case settled of
                    Inl e \<Rightarrow> Inl e
                  | Inr result \<Rightarrow>
                      status_0_or_throw env result
                        \<lparr>success = True, message = ''Reauthenticated org: '' @ username\<rparr>
                        ''Failed to reauthenticate''),
          w1))"

definition logoutOrg :: "env \<Rightarrow> string \<Rightarrow> world \<Rightarrow> outcome \<times> world" where
  "logoutOrg env username w =
     (let (settled, w1) =
            executeSfdxCommand env
              (''sf org logout --target-org '' @ username @ '' --no-prompt --json'') w
      in (caught (case settled of
                    Inl e \<Rightarrow> Inl e
                  | Inr result \<Rightarrow>
                      status_0_or_throw env result
                        \<lparr>success = True, message = ''Logged out from org: '' @ username\<rparr>
                        ''Failed to logout''),
          w1))"

definition authenticateNewOrg_command :: "string option \<Rightarrow> string option \<Rightarrow> string" where
  "authenticateNewOrg_command alias instanceUrl =
     ''sf org login web --json''
     @ (case instanceUrl of
          Some url \<Rightarrow> if url \<noteq> [] then '' --instance-url '' @ url else []
        | None \<Rightarrow> [])
     @ (case alias of
          Some a \<Rightarrow> if a \<noteq> [] then '' --alias '' @ a else []
        | None \<Rightarrow> [])"

text \<open>Its answer has a third field on success, \<^verbatim>\<open>username: result.result?.username\<close>
  (\<open>authenticated_username\<close> here).\<close>

record new_org_outcome = outcome +
  authenticated_username :: jsval

definition optional_username :: "jsval \<Rightarrow> jsval" where
  "optional_username result =
     (if nullish (js_prop result ''result'') then Undefined
      else js_prop (js_prop result ''result'') ''username'')"

definition authenticateNewOrg ::
  "env \<Rightarrow> string option \<Rightarrow> string option \<Rightarrow> world \<Rightarrow> new_org_outcome \<times> world" where
  "authenticateNewOrg env alias instanceUrl w =
     (let (settled, w1) = executeSfdxCommand env (authenticateNewOrg_command alias instanceUrl) w;
          thrown = (\<lambda>e. \<lparr>success = False, message = message_of e, authenticated_username = Undefined\<rparr>)
      in (case settled of
            Inl e \<Rightarrow> thrown e
          | Inr result \<Rightarrow>
              (case status_0_or_throw env result
                      \<lparr>success = True,
                       message = (case alias of
                                    Some a \<Rightarrow>
                                      if a \<noteq> [] then ''Successfully authenticated org: '' @ a
                                      else ''Successfully authenticated new org''
                                  | None \<Rightarrow> ''Successfully authenticated new org''),
                       authenticated_username = optional_username result\<rparr>
                      ''Failed to authenticate new org'' of
                 Inl e \<Rightarrow> thrown e
               | Inr ok \<Rightarrow> ok),
          w1))"

section \<open>orgMessageHandler.js\<close>

text \<open>
  The marks that open the notifications, as their UTF-8 bytes. Posting to the webview
  and showing a notification are events that do not throw; with that, nothing inside
  the \<^verbatim>\<open>try\<close> of \<^verbatim>\<open>handleListOrgs\<close> throws (\<^verbatim>\<open>listAllOrgs\<close> catches everything
  itself), so its \<^verbatim>\<open>catch\<close> has no branch here.
\<close>

definition check_mark :: string where
  "check_mark = [CHR 0xE2, CHR 0x9C, CHR 0x85]"

definition cross_mark :: string where
  "cross_mark = [CHR 0xE2, CHR 0x9D, CHR 0x8C]"

definition handleListOrgs :: "env \<Rightarrow> bool \<Rightarrow> world \<Rightarrow> world" where
  "handleListOrgs env forceRefresh w =
     (let (cached, w0) = (if \<not> forceRefresh then getOrgListCache (settings env) w else (None, w))
      in case cached of
           Some orgs \<Rightarrow>
             emit (PostMessage (Obj [(''command'', Str ''orgsListResponse''),
                                     (''data'', Arr orgs),
                                     (''success'', Bool True),
                                     (''cached'', Bool True)]))
               (emit (ConsoleLog ''[OrgManager] Using cached org list'' []) w0)
         | None \<Rightarrow>
             let w1 = emit (ConsoleLog ''[OrgManager] Fetching fresh org list from SFDX CLI'' []) w0;
                 (orgs, w2) = listAllOrgs env w1;
                 (version, w3) = setOrgListCache orgs w2
             in emit (PostMessage (Obj [(''command'', Str ''orgsListResponse''),
                                        (''data'', Arr orgs),
                                        (''success'', Bool True),
                                        (''cached'', Bool False)])) w3)"

text \<open>
  The warning is modal and offers the one item \<^verbatim>\<open>"Yes, Logout"\<close>. Waiting for the
  answer takes time; a rejected prompt lands in the \<^verbatim>\<open>catch\<close>.
\<close>

definition logout_response :: "bool \<Rightarrow> string \<Rightarrow> jsval" where
  "logout_response ok text =
     Obj [(''command'', Str ''operationComplete''),
          (''operation'', Str ''logout''),
          (''success'', Bool ok),
          (''message'', Str text)]"

definition handleLogoutOrg :: "env \<Rightarrow> string \<Rightarrow> world \<Rightarrow> world" where
  "handleLogoutOrg env username w =
     (let question = ''Are you sure you want to logout from '' @ username @ ''?'';
          (waited, answer) = showWarningMessage env question;
          w0 = (emit (ShowWarningMessage question) w)\<lparr>now := now w + waited\<rparr>
      in case answer of
           Inl e \<Rightarrow>
             emit (PostMessage (logout_response False (message_of e)))
               (emit (ShowErrorMessage (cross_mark @ '' Failed to logout: '' @ message_of e))
                  (emit (ConsoleError ''Error logging out org:'' e) w0))
         | Inr confirm \<Rightarrow>
             if confirm \<noteq> Some ''Yes, Logout''
             then emit (PostMessage (logout_response False ''Logout cancelled'')) w0
             else
               let (result, w1) = logoutOrg env username w0;
                   w2 = (if success result
                         then handleListOrgs env True
                                (snd (clearOrgListCache
                                        (emit (ShowInformationMessage
                                                 (check_mark @ '' '' @ message result)) w1)))
                         else emit (ShowErrorMessage (cross_mark @ '' '' @ message result)) w1)
               in emit (PostMessage (logout_response (success result) (message result))) w2)"


fun is_Exec :: "event \<Rightarrow> bool" where
  "is_Exec (Exec command) = True"
| "is_Exec e = False"


section \<open>Vocabulary of the properties\<close>

subsection \<open>Cache\<close>

definition default_config :: config where
  "default_config = \<lparr>orgCacheDurationSeconds = None\<rparr>"

text \<open>The world \<open>t\<close> milliseconds after \<^verbatim>\<open>setOrgListCache(orgs)\<close> was called in \<open>w\<close>.\<close>

definition after_set :: "jsval list \<Rightarrow> int \<Rightarrow> world \<Rightarrow> world" where
  "after_set orgs t w = (snd (setOrgListCache orgs w))\<lparr>now := now w + t\<rparr>"

definition slot_state :: "world \<Rightarrow> jsval list option \<times> int option" where
  "slot_state w = (orgListCache w, cacheTimestamp w)"

definition cache_fields :: "world \<Rightarrow> jsval list option \<times> int option \<times> nat" where
  "cache_fields w = (orgListCache w, cacheTimestamp w, cacheVersion w)"

definition count_writes :: "(int \<times> config \<times> cache_call) list \<Rightarrow> nat" where
  "count_writes cs = length (filter (\<lambda>c. is_write (snd (snd c))) cs)"

subsection \<open>Listing\<close>

text \<open>
  What the claim about \<^verbatim>\<open>listAllOrgs\<close> says of one record: exactly the nine fields,
  three copied, six taking a default when the field is missing (or otherwise falsy).
  An array that is missing counts as empty.
\<close>

definition elements :: "jsval \<Rightarrow> jsval list" where
  "elements v = (case v of Arr xs \<Rightarrow> xs | _ \<Rightarrow> [])"

definition array_or_missing :: "jsval \<Rightarrow> bool" where
  "array_or_missing v =
     (case v of Arr xs \<Rightarrow> True | Undefined \<Rightarrow> True | Null \<Rightarrow> True | _ \<Rightarrow> False)"

definition defaulted :: "jsval \<Rightarrow> jsval \<Rightarrow> jsval" where
  "defaulted v d = (if truthy v then v else d)"

definition normalized_from :: "jsval \<Rightarrow> jsval \<Rightarrow> bool" where
  "normalized_from org rec =
     (keys_of rec = [''username'', ''alias'', ''orgId'', ''instanceUrl'', ''connectedStatus'',
                     ''isDefaultUsername'', ''isDefaultDevHubUsername'', ''isScratchOrg'',
                     ''expirationDate'']
      \<and> js_prop rec ''username'' = js_prop org ''username''
      \<and> js_prop rec ''alias'' = defaulted (js_prop org ''alias'') (js_prop org ''username'')
      \<and> js_prop rec ''orgId'' = js_prop org ''orgId''
      \<and> js_prop rec ''instanceUrl'' = js_prop org ''instanceUrl''
      \<and> js_prop rec ''connectedStatus''
            = defaulted (js_prop org ''connectedStatus'') (Str ''Unknown'')
      \<and> js_prop rec ''isDefaultUsername''
            = defaulted (js_prop org ''isDefaultUsername'') (Bool False)
      \<and> js_prop rec ''isDefaultDevHubUsername''
            = defaulted (js_prop org ''isDefaultDevHubUsername'') (Bool False)
      \<and> js_prop rec ''isScratchOrg'' = defaulted (js_prop org ''isScratchOrg'') (Bool False)
      \<and> js_prop rec ''expirationDate'' = defaulted (js_prop org ''expirationDate'') Null)"

text \<open>
  The three internal failures of the listing: the promise is rejected, the status is not
  \<open>0\<close> (which includes a response that is no object at all), the result is missing.
\<close>

definition listing_failed :: "error + jsval \<Rightarrow> bool" where
  "listing_failed settled =
     (case settled of
        Inl e \<Rightarrow> True
      | Inr response \<Rightarrow>
          js_prop response ''status'' \<noteq> Num 0 \<or> \<not> truthy (js_prop response ''result''))"

text \<open>What \<^verbatim>\<open>listAllOrgs\<close> returns and logs under an environment; neither depends on the world.\<close>

definition list_outcome :: "env \<Rightarrow> error + jsval list" where
  "list_outcome env = listAllOrgs_try (settle env ''sf org list --json'')"

definition listed :: "env \<Rightarrow> jsval list" where
  "listed env = (case list_outcome env of Inr orgs \<Rightarrow> orgs | Inl e \<Rightarrow> [])"

definition listing_errors :: "env \<Rightarrow> event list" where
  "listing_errors env =
     (case list_outcome env of
        Inr orgs \<Rightarrow> []
      | Inl e \<Rightarrow> [ConsoleError ''Error listing orgs:'' e])"

definition list_response :: "jsval list \<Rightarrow> bool \<Rightarrow> jsval" where
  "list_response orgs from_cache =
     Obj [(''command'', Str ''orgsListResponse''),
          (''data'', Arr orgs),
          (''success'', Bool True),
          (''cached'', Bool from_cache)]"

subsection \<open>Logout\<close>

definition logout_command :: "string \<Rightarrow> string" where
  "logout_command u = ''sf org logout --target-org '' @ u @ '' --no-prompt --json''"

definition logout_question :: "string \<Rightarrow> string" where
  "logout_question u = ''Are you sure you want to logout from '' @ u @ ''?''"

text \<open>
  The world in which \<^verbatim>\<open>logoutOrg\<close> has succeeded after a confirmation that took
  \<open>waited\<close> milliseconds and the success notification is on screen: nothing has touched
  the cache yet.
\<close>

definition logged_out :: "env \<Rightarrow> string \<Rightarrow> int \<Rightarrow> world \<Rightarrow> world" where
  "logged_out env u waited w =
     w\<lparr>now := now w + waited + elapsed (exec env (logout_command u)),
       trace := trace w @ [ShowWarningMessage (logout_question u),
                           Exec (logout_command u),
                           ShowInformationMessage (check_mark @ '' Logged out from org: '' @ u)]\<rparr>"

section \<open>Sample environments\<close>

text \<open>
  Environments for the closed instances below. \<open>parse_known\<close> is \<^verbatim>\<open>JSON.parse\<close> on a
  table of documents and a SyntaxError elsewhere; it is only ever applied to the
  documents in its table, to the empty string and to \<^verbatim>\<open>oops\<close>, none of which is JSON
  unless it is in the table. \<open>exec_known\<close> runs the commands in its table and fails,
  printing nothing, on any other.
\<close>

definition quoted :: "string \<Rightarrow> string" where
  "quoted s = [CHR 0x22] @ s @ [CHR 0x22]"

definition parse_known :: "(string \<times> jsval) list \<Rightarrow> string \<Rightarrow> error + jsval" where
  "parse_known docs s =
     (case map_of docs s of
        Some v \<Rightarrow> Inr v
      | None \<Rightarrow> Inl (SyntaxError ''Unexpected token''))"

definition exec_known :: "(string \<times> proc) list \<Rightarrow> string \<Rightarrow> proc" where
  "exec_known commands c =
     (case map_of commands c of
        Some p \<Rightarrow> p
      | None \<Rightarrow>
          \<lparr>failure = Some (Error ''Command failed''), stdout = [], stderr = [], elapsed = 0\<rparr>)"

definition ok_proc :: "string \<Rightarrow> proc" where
  "ok_proc out = \<lparr>failure = None, stdout = out, stderr = [], elapsed = 1200\<rparr>"

text \<open>\<^verbatim>\<open>{"status":1,"message":"Auth error"}\<close>\<close>

definition error_body_json :: string where
  "error_body_json =
     ''{'' @ quoted ''status'' @ '':1,'' @ quoted ''message'' @ '':'' @ quoted ''Auth error''
     @ ''}''"

definition error_body :: jsval where
  "error_body = Obj [(''status'', Num 1), (''message'', Str ''Auth error'')]"

text \<open>\<^verbatim>\<open>{"status":0}\<close>\<close>

definition status_0_json :: string where
  "status_0_json = ''{'' @ quoted ''status'' @ '':0}''"

text \<open>
  \<^verbatim>\<open>{"status":0,"result":{"nonScratchOrgs":[{"username":"a@x.com","isDefaultUsername":true}],"scratchOrgs":[{"username":"b@x.com","isScratchOrg":true}]}}\<close>
\<close>

definition two_orgs_json :: string where
  "two_orgs_json =
     ''{'' @ quoted ''status'' @ '':0,'' @ quoted ''result'' @ '':{''
     @ quoted ''nonScratchOrgs'' @ '':[{'' @ quoted ''username'' @ '':'' @ quoted ''a@x.com''
     @ '','' @ quoted ''isDefaultUsername'' @ '':true}],''
     @ quoted ''scratchOrgs'' @ '':[{'' @ quoted ''username'' @ '':'' @ quoted ''b@x.com''
     @ '','' @ quoted ''isScratchOrg'' @ '':true}]}}''"

definition org_a :: jsval where
  "org_a = Obj [(''username'', Str ''a@x.com''), (''isDefaultUsername'', Bool True)]"

definition org_b :: jsval where
  "org_b = Obj [(''username'', Str ''b@x.com''), (''isScratchOrg'', Bool True)]"

definition two_orgs_response :: jsval where
  "two_orgs_response =
     Obj [(''status'', Num 0),
          (''result'', Obj [(''nonScratchOrgs'', Arr [org_a]), (''scratchOrgs'', Arr [org_b])])]"

text \<open>The tool cannot be started; the user dismisses every dialog.\<close>

definition env_cli_down :: env where
  "env_cli_down =
     \<lparr>settings = default_config,
      exec = exec_known [],
      JSON_parse = parse_known [],
      String_of = (\<lambda>v. []),
      showWarningMessage = (\<lambda>q. (3000, Inr None))\<rparr>"

text \<open>Every command exits non-zero with the JSON error body on stdout.\<close>

definition env_auth_error :: env where
  "env_auth_error =
     \<lparr>settings = default_config,
      exec = (\<lambda>c. \<lparr>failure = Some (Error ''Command failed''), stdout = error_body_json,
                    stderr = [], elapsed = 800\<rparr>),
      JSON_parse = parse_known [(error_body_json, error_body)],
      String_of = (\<lambda>v. []),
      showWarningMessage = (\<lambda>q. (3000, Inr None))\<rparr>"

text \<open>Every command exits non-zero with noise on stdout and the JSON body \<^verbatim>\<open>{}\<close> on stderr.\<close>

definition env_garbled :: env where
  "env_garbled =
     \<lparr>settings = default_config,
      exec = (\<lambda>c. \<lparr>failure = Some (Error ''Command failed''), stdout = ''oops'',
                    stderr = ''{}'', elapsed = 800\<rparr>),
      JSON_parse = parse_known [(''{}'', Obj [])],
      String_of = (\<lambda>v. []),
      showWarningMessage = (\<lambda>q. (3000, Inr None))\<rparr>"

text \<open>Two orgs are listed, logging out of \<^verbatim>\<open>a@x.com\<close> works, the user confirms.\<close>

definition env_two_orgs :: env where
  "env_two_orgs =
     \<lparr>settings = default_config,
      exec = exec_known [(''sf org list --json'', ok_proc two_orgs_json),
                         (logout_command ''a@x.com'', ok_proc status_0_json)],
      JSON_parse = parse_known [(two_orgs_json, two_orgs_response),
                                (status_0_json, Obj [(''status'', Num 0)])],
      String_of = (\<lambda>v. []),
      showWarningMessage = (\<lambda>q. (3000, Inr (Some ''Yes, Logout'')))\<rparr>"

text \<open>The tool answers \<^verbatim>\<open>{"status":0,"result":{}}\<close>: there are no orgs.\<close>

definition no_orgs_json :: string where
  "no_orgs_json = ''{'' @ quoted ''status'' @ '':0,'' @ quoted ''result'' @ '':{}}''"

definition no_orgs_response :: jsval where
  "no_orgs_response = Obj [(''status'', Num 0), (''result'', Obj [])]"

definition env_no_orgs :: env where
  "env_no_orgs =
     \<lparr>settings = default_config,
      exec = exec_known [(''sf org list --json'', ok_proc no_orgs_json)],
      JSON_parse = parse_known [(no_orgs_json, no_orgs_response)],
      String_of = (\<lambda>v. []),
      showWarningMessage = (\<lambda>q. (3000, Inr None))\<rparr>"

section \<open>Properties of the cache\<close>

lemmas cache_defs =
  setOrgListCache_def getOrgListCache_def clearOrgListCache_def getCacheStats_def
  no_cache_def emit_def getCacheDuration_def

lemmas default_duration =
  default_config_def getOrgCacheDuration_def getConfig_def DEFAULTS_orgCacheDurationSeconds_def

text \<open>
  Claim C1. The clock reads milliseconds since the epoch, so it did not read \<open>0\<close> when
  \<^verbatim>\<open>setOrgListCache(orgs)\<close> ran. Then for every list \<open>orgs\<close> (the empty one too) and
  every elapsed time \<open>t\<close>, \<^verbatim>\<open>getOrgListCache()\<close> returns \<open>orgs\<close> unchanged and leaves
  the slot as it is when \<open>t\<close> is at most the configured duration, and returns \<^verbatim>\<open>null\<close>
  and resets both the list and the timestamp to \<^verbatim>\<open>null\<close> when \<open>t\<close> exceeds it.
  \<open>Some []\<close>, the cached empty list, is not \<open>None\<close>.
\<close>

theorem getOrgListCache_after_set:
  assumes "now w \<noteq> 0"
  shows "fst (getOrgListCache cfg (after_set orgs t w))
           = (if t \<le> getOrgCacheDuration cfg then Some orgs else None)
       \<and> slot_state (snd (getOrgListCache cfg (after_set orgs t w)))
           = (if t \<le> getOrgCacheDuration cfg then (Some orgs, Some (now w)) else (None, None))"
  using assms by (simp add: cache_defs Let_def after_set_def slot_state_def)

theorem getOrgListCache_after_set_witness:
  "fst (getOrgListCache default_config (after_set [] 300000 (initial_world 1))) = Some []
   \<and> fst (getOrgListCache default_config (after_set [] 300001 (initial_world 1))) = None
   \<and> slot_state (snd (getOrgListCache default_config (after_set [] 300001 (initial_world 1))))
       = (None, None)"
  using getOrgListCache_after_set [of "initial_world 1" default_config "[]" 300000]
        getOrgListCache_after_set [of "initial_world 1" default_config "[]" 300001]
  by (simp add: initial_world_def default_duration)

lemma version_step:
  "cacheVersion (cache_step cfg c w) = cacheVersion w + (if is_write c then 1 else 0)"
  by (cases c) (simp_all add: cache_defs Let_def)

lemma version_run: "cacheVersion (cache_run cs w) = cacheVersion w + count_writes cs"
  by (induction cs arbitrary: w) (auto simp: version_step count_writes_def)

text \<open>
  Claim C2. \<^verbatim>\<open>setOrgListCache\<close> and \<^verbatim>\<open>clearOrgListCache\<close> each add exactly \<open>1\<close> to the
  version and return the new value; \<^verbatim>\<open>getOrgListCache\<close> (whether or not it evicts) and
  \<^verbatim>\<open>getCacheStats\<close> leave it alone; so after any sequence of calls on a fresh module,
  \<^verbatim>\<open>getCacheVersion()\<close> is the number of set and clear calls in it. (The counter is a
  natural number here; a JavaScript number counts exactly up to \<open>2^53\<close>.)
\<close>

theorem version_counts_set_and_clear:
  "fst (setOrgListCache orgs w) = cacheVersion w + 1
   \<and> getCacheVersion (snd (setOrgListCache orgs w)) = cacheVersion w + 1
   \<and> fst (clearOrgListCache w) = cacheVersion w + 1
   \<and> getCacheVersion (snd (clearOrgListCache w)) = cacheVersion w + 1
   \<and> getCacheVersion (snd (getOrgListCache cfg w)) = cacheVersion w
   \<and> getCacheVersion (snd (getCacheStats cfg w)) = cacheVersion w
   \<and> getCacheVersion (cache_run cs (initial_world t0)) = count_writes cs"
proof -
  have "cacheVersion (cache_run cs (initial_world t0)) = count_writes cs"
    by (simp add: version_run initial_world_def)
  then show ?thesis
    by (simp add: cache_defs Let_def getCacheVersion_def)
qed

lemma consistent_step:
  "slot_consistent w \<Longrightarrow> slot_consistent (cache_step cfg c (w\<lparr>now := t\<rparr>))"
  by (cases c) (auto simp add: cache_defs Let_def slot_consistent_def split: option.splits)

lemma consistent_run: "slot_consistent w \<Longrightarrow> slot_consistent (cache_run cs w)"
proof (induction cs arbitrary: w)
  case Nil
  then show ?case by simp
next
  case (Cons a cs)
  obtain t cfg c where a: "a = (t, cfg, c)" by (cases a)
  from Cons.prems have "slot_consistent (cache_step cfg c (w\<lparr>now := t\<rparr>))"
    by (rule consistent_step)
  then show ?case using Cons.IH a by simp
qed

text \<open>
  Claim C8. After any sequence of cache calls on a fresh module, made at any clock
  readings and under any configurations, the list and the timestamp are both set or
  both \<^verbatim>\<open>null\<close>.
\<close>

theorem slot_never_partial: "slot_consistent (cache_run cs (initial_world t0))"
  by (rule consistent_run) (simp add: slot_consistent_def initial_world_def)

text \<open>
  Claim C9, as amended. \<^verbatim>\<open>getCacheStats()\<close> never changes the world (no eviction, no
  version change), and its \<open>valid\<close> is true exactly when \<^verbatim>\<open>getOrgListCache()\<close> would
  return the list at that instant. On the empty cache it returns exactly
  \<^verbatim>\<open>{cached:false, size:0, age:0, valid:false}\<close>. On a cache that holds \<open>orgs\<close>, stored
  at \<open>ts\<close> (a clock reading, so not \<open>0\<close>), it returns \<open>cached\<close> true, \<open>size\<close> the length
  of \<open>orgs\<close>, \<open>age\<close> the milliseconds since \<open>ts\<close>, \<open>ageSeconds\<close> that age rounded to
  seconds, \<open>valid\<close> whether the age is at most the configured duration, \<open>expiresIn\<close> the
  time left (\<open>0\<close> once expired) and \<open>cacheDuration\<close> the configured duration.
\<close>

theorem getCacheStats_shape:
  "snd (getCacheStats cfg w) = w
   \<and> js_prop (fst (getCacheStats cfg w)) ''valid'' = Bool (fst (getOrgListCache cfg w) \<noteq> None)
   \<and> keys_of (fst (getCacheStats cfg w))
        = (if no_cache w then [''cached'', ''size'', ''age'', ''valid'']
           else [''cached'', ''size'', ''age'', ''ageSeconds'', ''valid'', ''expiresIn'',
                 ''cacheDuration''])
   \<and> (slot_state w = (None, None) \<longrightarrow>
        fst (getCacheStats cfg w)
          = Obj [(''cached'', Bool False),
                 (''size'', Num 0),
                 (''age'', Num 0),
                 (''valid'', Bool False)])
   \<and> (slot_state w = (Some orgs, Some ts) \<and> ts \<noteq> 0 \<longrightarrow>
        fst (getCacheStats cfg w)
          = Obj [(''cached'', Bool True),
                 (''size'', Num (of_nat (length orgs))),
                 (''age'', Num (of_int (now w - ts))),
                 (''ageSeconds'', Num (of_int ((now w - ts + 500) div 1000))),
                 (''valid'', Bool (now w - ts \<le> getOrgCacheDuration cfg)),
                 (''expiresIn'',
                    Num (of_int (if now w - ts \<le> getOrgCacheDuration cfg
                                 then getOrgCacheDuration cfg - (now w - ts) else 0))),
                 (''cacheDuration'', Num (of_int (getOrgCacheDuration cfg)))])"
  by (auto simp add: cache_defs Let_def keys_of_def slot_state_def round_div_1000_def
        split: option.splits)

theorem getCacheStats_shape_witness:
  "fst (getCacheStats default_config (initial_world 7))
     = Obj [(''cached'', Bool False), (''size'', Num 0), (''age'', Num 0), (''valid'', Bool False)]
   \<and> fst (getCacheStats default_config (after_set [org_a, org_b] 1500 (initial_world 7)))
       = Obj [(''cached'', Bool True),
              (''size'', Num 2),
              (''age'', Num 1500),
              (''ageSeconds'', Num 2),
              (''valid'', Bool True),
              (''expiresIn'', Num 298500),
              (''cacheDuration'', Num 300000)]"
proof -
  have empty: "slot_state (initial_world 7) = (None, None)"
    by (simp add: slot_state_def initial_world_def)
  have full: "slot_state (after_set [org_a, org_b] 1500 (initial_world 7))
                = (Some [org_a, org_b], Some 7) \<and> (7::int) \<noteq> 0"
    by (simp add: slot_state_def after_set_def setOrgListCache_def emit_def Let_def
          initial_world_def)
  have clock: "now (after_set [org_a, org_b] 1500 (initial_world 7)) = 1507"
    by (simp add: after_set_def initial_world_def)
  show ?thesis
    using getCacheStats_shape [of default_config "initial_world 7"]
          getCacheStats_shape [of default_config "after_set [org_a, org_b] 1500 (initial_world 7)"
                                  "[org_a, org_b]" 7]
          empty full clock
    by (simp add: default_duration)
qed

text \<open>
  The claim as it stands fails on the empty cache: the object returned there has neither
  \<open>expiresIn\<close> nor \<open>cacheDuration\<close>.
\<close>

theorem getCacheStats_empty_lacks_fields:
  "''expiresIn'' \<notin> set (keys_of (fst (getCacheStats default_config (initial_world 0))))
   \<and> ''cacheDuration'' \<notin> set (keys_of (fst (getCacheStats default_config (initial_world 0))))"
  by (simp add: cache_defs keys_of_def initial_world_def)

section \<open>Properties of the command executor\<close>

lemma fst_executeSfdxCommand: "fst (executeSfdxCommand env command w) = settle env command"
  by (simp add: executeSfdxCommand_def)

text \<open>
  Claim C4, as amended. When the child process reports an error, \<^verbatim>\<open>executeSfdxCommand\<close>
  parses one stream only: stdout when it is not empty, stderr otherwise. It resolves with
  the parsed body when that parse succeeds and rejects with the original process error
  when it fails; in particular it rejects with the original error when neither stream
  parses.
\<close>

theorem executeSfdxCommand_process_error:
  assumes "failure (exec env command) = Some err"
  shows "fst (executeSfdxCommand env command w)
           = (case JSON_parse env (if stdout (exec env command) = []
                                   then stderr (exec env command)
                                   else stdout (exec env command)) of
                Inr body \<Rightarrow> Inr body
              | Inl parseError \<Rightarrow> Inl err)
       \<and> (isl (JSON_parse env (stdout (exec env command)))
            \<and> isl (JSON_parse env (stderr (exec env command)))
          \<longrightarrow> fst (executeSfdxCommand env command w) = Inl err)"
  using assms
  by (auto simp add: executeSfdxCommand_def settle_def exec_callback_def isl_def)

theorem executeSfdxCommand_process_error_witness:
  "fst (executeSfdxCommand env_auth_error ''sf org display --json'' (initial_world 1))
     = Inr error_body"
proof -
  have h: "failure (exec env_auth_error ''sf org display --json'') = Some (Error ''Command failed'')"
    by (simp add: env_auth_error_def)
  show ?thesis
    using executeSfdxCommand_process_error [OF h, of "initial_world 1"]
    by (simp add: env_auth_error_def parse_known_def error_body_json_def quoted_def)
qed

text \<open>
  The claim as it stands fails when stdout is not empty and is not JSON while stderr is:
  stderr is never looked at, and the promise is rejected although one of the two streams
  parses.
\<close>

theorem executeSfdxCommand_ignores_stderr:
  "JSON_parse env_garbled (stderr (exec env_garbled ''sf org display --json'')) = Inr (Obj [])
   \<and> fst (executeSfdxCommand env_garbled ''sf org display --json'' (initial_world 1))
       = Inl (Error ''Command failed'')"
  by (simp add: env_garbled_def parse_known_def executeSfdxCommand_def settle_def
        exec_callback_def)

text \<open>
  The command lines: \<^verbatim>\<open>reauthenticateOrg\<close> drops an \<open>instanceUrl\<close> that is \<^verbatim>\<open>null\<close>,
  empty or the text \<^verbatim>\<open>undefined\<close>, and passes any other one after \<^verbatim>\<open>--instance-url\<close>;
  \<^verbatim>\<open>authenticateNewOrg\<close> drops one that is \<^verbatim>\<open>null\<close> or empty.
\<close>

lemma reauthenticateOrg_command_guard:
  "reauthenticateOrg_command u None = ''sf org login web --alias '' @ u @ '' --json''"
  "reauthenticateOrg_command u (Some []) = ''sf org login web --alias '' @ u @ '' --json''"
  "reauthenticateOrg_command u (Some ''undefined'')
     = ''sf org login web --alias '' @ u @ '' --json''"
  "url \<noteq> [] \<Longrightarrow> url \<noteq> ''undefined'' \<Longrightarrow>
     reauthenticateOrg_command u (Some url)
       = ''sf org login web --instance-url '' @ url @ '' --alias '' @ u @ '' --json''"
  by (simp_all add: reauthenticateOrg_command_def)

lemma authenticateNewOrg_command_absent:
  "authenticateNewOrg_command None None = ''sf org login web --json''"
  "authenticateNewOrg_command None (Some []) = ''sf org login web --json''"
  "authenticateNewOrg_command None (Some ''https://x.com'')
     = ''sf org login web --json --instance-url https://x.com''"
  by (simp_all add: authenticateNewOrg_command_def)

text \<open>
  Claim C5 at \<^verbatim>\<open>authenticateNewOrg(null, "undefined")\<close>: the guard of
  \<^verbatim>\<open>authenticateNewOrg\<close> is \<^verbatim>\<open>if (instanceUrl)\<close> alone, so the text \<^verbatim>\<open>undefined\<close> is
  put on the command line that is run.
\<close>

theorem authenticateNewOrg_undefined_literal:
  "authenticateNewOrg_command None (Some ''undefined'')
     = ''sf org login web --json --instance-url undefined''
   \<and> trace (snd (authenticateNewOrg env None (Some ''undefined'') w))
       = trace w @ [Exec ''sf org login web --json --instance-url undefined'']"
  by (simp add: authenticateNewOrg_command_def authenticateNewOrg_def executeSfdxCommand_def
        emit_def Let_def)

text \<open>Spreading a string: one element per code point, also beyond ASCII.\<close>

lemma code_points_examples:
  "code_points ''ab'' = [''a'', ''b'']"
  "code_points [CHR 0xC3, CHR 0xA9, CHR ''x''] = [[CHR 0xC3, CHR 0xA9], ''x'']"
  "spread (Str [CHR ''a'', CHR 0xE2, CHR 0x9C, CHR 0x85])
     = Inr [Str ''a'', Str [CHR 0xE2, CHR 0x9C, CHR 0x85]]"
  by (simp_all add: is_continuation_def)

lemma get_not_nullish: "\<not> nullish v \<Longrightarrow> get v k = Inr (js_prop v k)"
  by (cases v) simp_all

lemma normalize_org_ok:
  assumes "\<not> nullish org"
  shows "\<exists>r. normalize_org org = Inr r \<and> normalized_from org r"
  using assms
  by (simp add: normalize_org_def get_not_nullish normalized_from_def keys_of_def
        defaulted_def js_or_def)

lemma map_throwing_ok:
  assumes "\<forall>org \<in> set xs. \<not> nullish org"
  shows "\<exists>rs. map_throwing normalize_org xs = Inr rs \<and> list_all2 normalized_from xs rs"
  using assms
proof (induction xs)
  case Nil
  then show ?case by simp
next
  case (Cons x xs)
  then obtain r where r: "normalize_org x = Inr r" "normalized_from x r"
    using normalize_org_ok by fastforce
  from Cons obtain rs
    where rs: "map_throwing normalize_org xs = Inr rs" "list_all2 normalized_from xs rs"
    by auto
  show ?case using r rs by simp
qed

lemma push_all_ok: "array_or_missing v \<Longrightarrow> push_all v acc = Inr (acc @ elements v)"
  by (cases v) (simp_all add: push_all_def array_or_missing_def elements_def)

lemma fst_listAllOrgs: "fst (listAllOrgs env w) = listed env"
  by (simp add: listAllOrgs_def listed_def list_outcome_def executeSfdxCommand_def
        split: sum.splits)

text \<open>
  Claim C3. When the tool's response has status \<open>0\<close> and a result object whose
  \<open>nonScratchOrgs\<close> and \<open>scratchOrgs\<close> are arrays or missing, and no element is
  \<^verbatim>\<open>null\<close>, \<^verbatim>\<open>listAllOrgs\<close> returns one normalized record per element, those of
  \<open>nonScratchOrgs\<close> first, then those of \<open>scratchOrgs\<close>, each array in its own order.
\<close>

theorem listAllOrgs_flattens_and_normalizes:
  assumes "settle env ''sf org list --json'' = Inr response"
    and "js_prop response ''status'' = Num 0"
    and "js_prop response ''result'' = Obj r"
    and "array_or_missing (js_prop (Obj r) ''nonScratchOrgs'')"
    and "array_or_missing (js_prop (Obj r) ''scratchOrgs'')"
    and "\<forall>org \<in> set (elements (js_prop (Obj r) ''nonScratchOrgs'')
                      @ elements (js_prop (Obj r) ''scratchOrgs'')). \<not> nullish org"
  shows "list_all2 normalized_from
           (elements (js_prop (Obj r) ''nonScratchOrgs'')
            @ elements (js_prop (Obj r) ''scratchOrgs''))
           (fst (listAllOrgs env w))"
proof -
  let ?all = "elements (js_prop (Obj r) ''nonScratchOrgs'')
              @ elements (js_prop (Obj r) ''scratchOrgs'')"
  from assms(2) have "\<not> nullish response" by (cases response) simp_all
  then have st: "get response ''status'' = Inr (Num 0)"
    using assms(2) by (simp add: get_not_nullish)
  obtain rs
    where rs: "map_throwing normalize_org ?all = Inr rs" "list_all2 normalized_from ?all rs"
    using map_throwing_ok [OF assms(6)] by blast
  have "listAllOrgs_try (settle env ''sf org list --json'') = Inr rs"
    using assms(1,3) st rs(1) push_all_ok [OF assms(4)] push_all_ok [OF assms(5)]
    by (simp add: listAllOrgs_try_def)
  then have "listed env = rs"
    by (simp add: listed_def list_outcome_def)
  then show ?thesis using rs(2) by (simp add: fst_listAllOrgs)
qed

lemma settle_two_orgs: "settle env_two_orgs ''sf org list --json'' = Inr two_orgs_response"
  by (simp add: env_two_orgs_def settle_def exec_callback_def exec_known_def ok_proc_def
        parse_known_def)

theorem listAllOrgs_flattens_and_normalizes_witness:
  "list_all2 normalized_from [org_a, org_b] (fst (listAllOrgs env_two_orgs (initial_world 1)))"
proof -
  let ?r = "[(''nonScratchOrgs'', Arr [org_a]), (''scratchOrgs'', Arr [org_b])]"
  have h2: "js_prop two_orgs_response ''status'' = Num 0"
    and h3: "js_prop two_orgs_response ''result'' = Obj ?r"
    by (simp_all add: two_orgs_response_def)
  have h4: "array_or_missing (js_prop (Obj ?r) ''nonScratchOrgs'')"
    and h5: "array_or_missing (js_prop (Obj ?r) ''scratchOrgs'')"
    by (simp_all add: array_or_missing_def)
  have h6: "\<forall>org \<in> set (elements (js_prop (Obj ?r) ''nonScratchOrgs'')
                         @ elements (js_prop (Obj ?r) ''scratchOrgs'')). \<not> nullish org"
    by (simp add: elements_def org_a_def org_b_def)
  show ?thesis
    using listAllOrgs_flattens_and_normalizes
            [OF settle_two_orgs h2 h3 h4 h5 h6, of "initial_world 1"]
    by (simp add: elements_def)
qed

text \<open>The records themselves, for the two listed orgs.\<close>

lemma listed_two_orgs:
  "listed env_two_orgs =
     [Obj [(''username'', Str ''a@x.com''), (''alias'', Str ''a@x.com''),
           (''orgId'', Undefined), (''instanceUrl'', Undefined),
           (''connectedStatus'', Str ''Unknown''), (''isDefaultUsername'', Bool True),
           (''isDefaultDevHubUsername'', Bool False), (''isScratchOrg'', Bool False),
           (''expirationDate'', Null)],
      Obj [(''username'', Str ''b@x.com''), (''alias'', Str ''b@x.com''),
           (''orgId'', Undefined), (''instanceUrl'', Undefined),
           (''connectedStatus'', Str ''Unknown''), (''isDefaultUsername'', Bool False),
           (''isDefaultDevHubUsername'', Bool False), (''isScratchOrg'', Bool True),
           (''expirationDate'', Null)]]"
  by (simp add: listed_def list_outcome_def settle_two_orgs listAllOrgs_try_def
        two_orgs_response_def push_all_def normalize_org_def js_or_def org_a_def org_b_def)

lemma listing_failed_try:
  assumes "listing_failed settled"
  shows "listAllOrgs_try settled = Inr [] \<or> (\<exists>e. listAllOrgs_try settled = Inl e)"
proof (cases settled)
  case (Inl e)
  then show ?thesis by (simp add: listAllOrgs_try_def)
next
  case (Inr response)
  show ?thesis
  proof (cases "nullish response")
    case True
    then have "\<exists>e. get response ''status'' = Inl e" by (cases response) simp_all
    then show ?thesis using Inr by (auto simp add: listAllOrgs_try_def)
  next
    case False
    then show ?thesis using Inr assms
      by (auto simp add: listAllOrgs_try_def listing_failed_def get_not_nullish)
  qed
qed

lemma listing_failed_listed:
  "listing_failed (settle env ''sf org list --json'') \<Longrightarrow> listed env = []"
  using listing_failed_try [of "settle env ''sf org list --json''"]
  by (auto simp add: listed_def list_outcome_def)

text \<open>
  Claim C6. Whenever the listing fails inside (the promise is rejected, the status is not
  \<open>0\<close>, or the result is missing), \<^verbatim>\<open>listAllOrgs\<close> returns the empty list; it returns
  a list in every case, never an error and never a flag; and a tool that truly reports
  no orgs gives the same empty list.
\<close>

theorem listAllOrgs_failure_is_empty:
  "(listing_failed (settle env ''sf org list --json'') \<longrightarrow> fst (listAllOrgs env w) = [])
   \<and> (settle env ''sf org list --json'' = Inr no_orgs_response
        \<longrightarrow> fst (listAllOrgs env w) = [])"
proof (rule conjI; rule impI)
  assume "listing_failed (settle env ''sf org list --json'')"
  then show "fst (listAllOrgs env w) = []"
    by (simp add: fst_listAllOrgs listing_failed_listed)
next
  assume "settle env ''sf org list --json'' = Inr no_orgs_response"
  then show "fst (listAllOrgs env w) = []"
    by (simp add: fst_listAllOrgs listed_def list_outcome_def listAllOrgs_try_def
          no_orgs_response_def push_all_def)
qed

theorem listAllOrgs_failure_is_empty_witness:
  "fst (listAllOrgs env_cli_down (initial_world 1)) = []
   \<and> fst (listAllOrgs env_auth_error (initial_world 1)) = []
   \<and> fst (listAllOrgs env_no_orgs (initial_world 1)) = []"
proof -
  have down: "listing_failed (settle env_cli_down ''sf org list --json'')"
    by (simp add: env_cli_down_def settle_def exec_callback_def exec_known_def
          parse_known_def listing_failed_def)
  have auth: "listing_failed (settle env_auth_error ''sf org list --json'')"
    by (simp add: env_auth_error_def settle_def exec_callback_def parse_known_def
          listing_failed_def error_body_json_def quoted_def error_body_def)
  have none: "settle env_no_orgs ''sf org list --json'' = Inr no_orgs_response"
    by (simp add: env_no_orgs_def settle_def exec_callback_def exec_known_def ok_proc_def
          parse_known_def)
  show ?thesis
    using listAllOrgs_failure_is_empty [of env_cli_down "initial_world 1"]
          listAllOrgs_failure_is_empty [of env_auth_error "initial_world 1"]
          listAllOrgs_failure_is_empty [of env_no_orgs "initial_world 1"]
          down auth none
    by blast
qed

section \<open>Properties of the message handlers\<close>

lemma listAllOrgs_eq:
  "listAllOrgs env w =
     (listed env,
      w\<lparr>trace := trace w @ Exec ''sf org list --json'' # listing_errors env,
        now := now w + elapsed (exec env ''sf org list --json'')\<rparr>)"
  by (simp add: listAllOrgs_def listed_def listing_errors_def list_outcome_def
        executeSfdxCommand_def emit_def split: sum.splits)

lemma handleListOrgs_forced:
  "handleListOrgs env True w =
     w\<lparr>cacheVersion := cacheVersion w + 1,
       orgListCache := Some (listed env),
       cacheTimestamp := Some (now w + elapsed (exec env ''sf org list --json'')),
       now := now w + elapsed (exec env ''sf org list --json''),
       trace := trace w @
          [ConsoleLog ''[OrgManager] Fetching fresh org list from SFDX CLI'' [],
           Exec ''sf org list --json''] @ listing_errors env @
          [ConsoleLog ''[OrgCache] Cached orgs''
             [int (length (listed env)), now w + elapsed (exec env ''sf org list --json''),
              int (cacheVersion w) + 1],
           PostMessage (list_response (listed env) False)]\<rparr>"
  by (simp add: handleListOrgs_def listAllOrgs_eq setOrgListCache_def emit_def Let_def
        list_response_def)




lemma logoutOrg_success:
  assumes "settle env (logout_command username) = Inr response"
    and "js_prop response ''status'' = Num 0"
  shows "logoutOrg env username w =
           (\<lparr>success = True, message = ''Logged out from org: '' @ username\<rparr>,
            w\<lparr>trace := trace w @ [Exec (logout_command username)],
              now := now w + elapsed (exec env (logout_command username))\<rparr>)"
proof -
  from assms(2) have "\<not> nullish response" by (cases response) simp_all
  then have "get response ''status'' = Inr (Num 0)"
    using assms(2) by (simp add: get_not_nullish)
  then show ?thesis using assms(1)
    by (simp add: logoutOrg_def executeSfdxCommand_def emit_def status_0_or_throw_def
          caught_def logout_command_def)
qed

text \<open>
  Claim C7. Let the modal warning be answered (not rejected). If the answer is anything
  but \<^verbatim>\<open>"Yes, Logout"\<close> (declined or dismissed), the handler only shows the warning and
  posts \<^verbatim>\<open>{operation:"logout", success:false, message:"Logout cancelled"}\<close>: no command
  is run and the three cache variables are unchanged. If the answer is \<^verbatim>\<open>"Yes, Logout"\<close>
  and the logout command answers with status \<open>0\<close>, the handler runs the logout command and
  shows the success notification; it then calls \<^verbatim>\<open>clearOrgListCache\<close>, which empties
  the slot (list and timestamp both \<^verbatim>\<open>null\<close>) and raises the version by one; from that
  emptied cache it runs the forced list refresh, which fetches and stores the list without
  consulting the cache and posts it; only then does it post
  \<^verbatim>\<open>{operation:"logout", success:true, ...}\<close>. At the end the version has gone up by two
  and the cache holds the fresh list.
\<close>

theorem handleLogoutOrg_flow:
  assumes "showWarningMessage env (logout_question username) = (waited, Inr confirm)"
  shows "(confirm \<noteq> Some ''Yes, Logout'' \<longrightarrow>
            trace (handleLogoutOrg env username w)
              = trace w @ [ShowWarningMessage (logout_question username),
                           PostMessage (Obj [(''command'', Str ''operationComplete''),
                                             (''operation'', Str ''logout''),
                                             (''success'', Bool False),
                                             (''message'', Str ''Logout cancelled'')])]
            \<and> cache_fields (handleLogoutOrg env username w) = cache_fields w)
       \<and> (confirm = Some ''Yes, Logout''
            \<and> settle env (logout_command username) = Inr response
            \<and> js_prop response ''status'' = Num 0 \<longrightarrow>
            handleLogoutOrg env username w
              = emit (PostMessage (Obj [(''command'', Str ''operationComplete''),
                                        (''operation'', Str ''logout''),
                                        (''success'', Bool True),
                                        (''message'', Str (''Logged out from org: '' @ username))]))
                  (handleListOrgs env True
                     (snd (clearOrgListCache (logged_out env username waited w))))
            \<and> cache_fields (snd (clearOrgListCache (logged_out env username waited w)))
                = (None, None, cacheVersion w + 1)
            \<and> trace (snd (clearOrgListCache (logged_out env username waited w)))
                = trace w @ [ShowWarningMessage (logout_question username),
                             Exec (logout_command username),
                             ShowInformationMessage
                               (check_mark @ '' Logged out from org: '' @ username),
                             ConsoleLog ''[OrgCache] Cache cleared'' [int (cacheVersion w) + 1]]
            \<and> trace (handleLogoutOrg env username w)
              = trace w @ [ShowWarningMessage (logout_question username),
                           Exec (logout_command username),
                           ShowInformationMessage
                             (check_mark @ '' Logged out from org: '' @ username),
                           ConsoleLog ''[OrgCache] Cache cleared'' [int (cacheVersion w) + 1],
                           ConsoleLog ''[OrgManager] Fetching fresh org list from SFDX CLI'' [],
                           Exec ''sf org list --json'']
                @ listing_errors env
                @ [ConsoleLog ''[OrgCache] Cached orgs''
                     [int (length (listed env)), now (handleLogoutOrg env username w),
                      int (cacheVersion w) + 2],
                   PostMessage (list_response (listed env) False),
                   PostMessage (Obj [(''command'', Str ''operationComplete''),
                                     (''operation'', Str ''logout''),
                                     (''success'', Bool True),
                                     (''message'', Str (''Logged out from org: '' @ username))])]
            \<and> cache_fields (handleLogoutOrg env username w)
                = (Some (listed env), Some (now (handleLogoutOrg env username w)),
                   cacheVersion w + 2))"
proof (rule conjI; rule impI)
  assume "confirm \<noteq> Some ''Yes, Logout''"
  then show "trace (handleLogoutOrg env username w)
              = trace w @ [ShowWarningMessage (logout_question username),
                           PostMessage (Obj [(''command'', Str ''operationComplete''),
                                             (''operation'', Str ''logout''),
                                             (''success'', Bool False),
                                             (''message'', Str ''Logout cancelled'')])]
            \<and> cache_fields (handleLogoutOrg env username w) = cache_fields w"
    using assms
    by (simp add: handleLogoutOrg_def logout_question_def emit_def logout_response_def
          cache_fields_def)
next
  let ?done = "PostMessage (Obj [(''command'', Str ''operationComplete''),
                                 (''operation'', Str ''logout''),
                                 (''success'', Bool True),
                                 (''message'', Str (''Logged out from org: '' @ username))])"
  let ?cleared = "snd (clearOrgListCache (logged_out env username waited w))"
  assume yes: "confirm = Some ''Yes, Logout''
            \<and> settle env (logout_command username) = Inr response
            \<and> js_prop response ''status'' = Num 0"
  then have lo: "\<And>v. logoutOrg env username v =
           (\<lparr>success = True, message = ''Logged out from org: '' @ username\<rparr>,
            v\<lparr>trace := trace v @ [Exec (logout_command username)],
              now := now v + elapsed (exec env (logout_command username))\<rparr>)"
    using logoutOrg_success by blast
  have flow: "handleLogoutOrg env username w = emit ?done (handleListOrgs env True ?cleared)"
    using assms yes
    by (simp add: handleLogoutOrg_def logout_question_def lo logged_out_def emit_def
          logout_response_def Let_def)
  have cleared: "cache_fields ?cleared = (None, None, cacheVersion w + 1)"
    "trace ?cleared
       = trace w @ [ShowWarningMessage (logout_question username),
                    Exec (logout_command username),
                    ShowInformationMessage (check_mark @ '' Logged out from org: '' @ username),
                    ConsoleLog ''[OrgCache] Cache cleared'' [int (cacheVersion w) + 1]]"
    by (simp_all add: clearOrgListCache_def logged_out_def emit_def cache_fields_def Let_def)
  have after: "trace (handleLogoutOrg env username w)
              = trace w @ [ShowWarningMessage (logout_question username),
                           Exec (logout_command username),
                           ShowInformationMessage
                             (check_mark @ '' Logged out from org: '' @ username),
                           ConsoleLog ''[OrgCache] Cache cleared'' [int (cacheVersion w) + 1],
                           ConsoleLog ''[OrgManager] Fetching fresh org list from SFDX CLI'' [],
                           Exec ''sf org list --json'']
                @ listing_errors env
                @ [ConsoleLog ''[OrgCache] Cached orgs''
                     [int (length (listed env)), now (handleLogoutOrg env username w),
                      int (cacheVersion w) + 2],
                   PostMessage (list_response (listed env) False),
                   ?done]
            \<and> cache_fields (handleLogoutOrg env username w)
                = (Some (listed env), Some (now (handleLogoutOrg env username w)),
                   cacheVersion w + 2)"
    using assms yes
    by (simp add: handleLogoutOrg_def logout_question_def lo handleListOrgs_forced
          clearOrgListCache_def emit_def logout_response_def cache_fields_def Let_def)
  show "handleLogoutOrg env username w = emit ?done (handleListOrgs env True ?cleared)
            \<and> cache_fields ?cleared = (None, None, cacheVersion w + 1)
            \<and> trace ?cleared
                = trace w @ [ShowWarningMessage (logout_question username),
                             Exec (logout_command username),
                             ShowInformationMessage
                               (check_mark @ '' Logged out from org: '' @ username),
                             ConsoleLog ''[OrgCache] Cache cleared'' [int (cacheVersion w) + 1]]
            \<and> trace (handleLogoutOrg env username w)
              = trace w @ [ShowWarningMessage (logout_question username),
                           Exec (logout_command username),
                           ShowInformationMessage
                             (check_mark @ '' Logged out from org: '' @ username),
                           ConsoleLog ''[OrgCache] Cache cleared'' [int (cacheVersion w) + 1],
                           ConsoleLog ''[OrgManager] Fetching fresh org list from SFDX CLI'' [],
                           Exec ''sf org list --json'']
                @ listing_errors env
                @ [ConsoleLog ''[OrgCache] Cached orgs''
                     [int (length (listed env)), now (handleLogoutOrg env username w),
                      int (cacheVersion w) + 2],
                   PostMessage (list_response (listed env) False),
                   ?done]
            \<and> cache_fields (handleLogoutOrg env username w)
                = (Some (listed env), Some (now (handleLogoutOrg env username w)),
                   cacheVersion w + 2)"
    using flow cleared after by blast
qed

text \<open>
  An instance that starts from a cache holding one org, stored at clock reading \<open>7\<close>:
  declining leaves that entry in place; confirming empties the slot before the refresh.
\<close>

theorem handleLogoutOrg_flow_witness:
  "cache_fields (after_set [org_a] 10 (initial_world 7)) = (Some [org_a], Some 7, 1)
   \<and> cache_fields (handleLogoutOrg env_cli_down ''a@x.com'' (after_set [org_a] 10 (initial_world 7)))
       = (Some [org_a], Some 7, 1)
   \<and> filter is_Exec
        (trace (handleLogoutOrg env_cli_down ''a@x.com'' (after_set [org_a] 10 (initial_world 7))))
       = []
   \<and> cache_fields
        (snd (clearOrgListCache
                (logged_out env_two_orgs ''a@x.com'' 3000 (after_set [org_a] 10 (initial_world 7)))))
       = (None, None, 2)
   \<and> cache_fields
        (handleLogoutOrg env_two_orgs ''a@x.com'' (after_set [org_a] 10 (initial_world 7)))
       = (Some (listed env_two_orgs),
          Some (now (handleLogoutOrg env_two_orgs ''a@x.com''
                       (after_set [org_a] 10 (initial_world 7)))), 3)"
proof -
  let ?w = "after_set [org_a] 10 (initial_world 7)"
  have start: "cache_fields ?w = (Some [org_a], Some 7, 1)"
    "filter is_Exec (trace ?w) = []"
    by (simp_all add: cache_fields_def after_set_def setOrgListCache_def emit_def Let_def
          initial_world_def)
  have no: "showWarningMessage env_cli_down (logout_question ''a@x.com'') = (3000, Inr None)"
    by (simp add: env_cli_down_def)
  have yes: "showWarningMessage env_two_orgs (logout_question ''a@x.com'')
               = (3000, Inr (Some ''Yes, Logout''))"
    by (simp add: env_two_orgs_def)
  have ok: "settle env_two_orgs (logout_command ''a@x.com'') = Inr (Obj [(''status'', Num 0)])"
    by (simp add: env_two_orgs_def settle_def exec_callback_def exec_known_def ok_proc_def
          parse_known_def logout_command_def status_0_json_def two_orgs_json_def quoted_def)
  have st: "js_prop (Obj [(''status'', Num 0)]) ''status'' = Num 0"
    by simp
  have v: "cacheVersion ?w = 1"
    using start(1) by (simp add: cache_fields_def)
  have declined:
    "trace (handleLogoutOrg env_cli_down ''a@x.com'' ?w)
       = trace ?w @ [ShowWarningMessage (logout_question ''a@x.com''),
                     PostMessage (Obj [(''command'', Str ''operationComplete''),
                                       (''operation'', Str ''logout''),
                                       (''success'', Bool False),
                                       (''message'', Str ''Logout cancelled'')])]
     \<and> cache_fields (handleLogoutOrg env_cli_down ''a@x.com'' ?w) = cache_fields ?w"
    using handleLogoutOrg_flow [OF no, where w = ?w and response = Undefined]
    by simp
  have accepted:
    "cache_fields (snd (clearOrgListCache (logged_out env_two_orgs ''a@x.com'' 3000 ?w)))
       = (None, None, cacheVersion ?w + 1)
     \<and> cache_fields (handleLogoutOrg env_two_orgs ''a@x.com'' ?w)
         = (Some (listed env_two_orgs),
            Some (now (handleLogoutOrg env_two_orgs ''a@x.com'' ?w)), cacheVersion ?w + 2)"
    using handleLogoutOrg_flow [OF yes, where w = ?w and response = "Obj [(''status'', Num 0)]"]
          ok st
    by blast
  show ?thesis
    using declined accepted start v by simp
qed







end
